theory Spec2Isabelle
  imports Complex_Main
begin

section \<open>Screen capture: \<open>get_screen\<close> of My-Code/utils.py\<close>

text \<open>
  The source is one function:
  \<^verbatim>\<open>
  def get_screen(env, device, h=80, w=80):
      k = env.render(mode='rgb_array')
      k = resize(k, (h, w), anti_aliasing=False)
      k = torch.Tensor(k)
      k = k.permute(2,1,0).unsqueeze(0)
      k = k.to(device)
      return k
  \<close>
  Every line is a call into a collaborator: the environment's \<open>render\<close>, the resize
  routine of the image library, and the tensor library. None of the three is part of the
  repository, so the environment and the numeric kernels are parameters of the model, and
  the structural behaviour of the library calls is modelled from the spec. Pixel values
  are elements of a field (the numbers that the floating-point values stand for). An
  exception is a value \<open>Inl e\<close>; the environment handle is threaded through, since
  rendering may change it.
\<close>

subsection \<open>Errors, element types, devices\<close>

datatype error = RenderError string | ResizeError string | RuntimeError string

datatype dtype = UInt8 | Float32 | Float64

datatype device = CPU | CUDA nat

subsection \<open>Arrays and tensors\<close>

text \<open>
  An array as the renderer and the resize routine hand it over: a shape and the elements
  in row-major order. A tensor is a strided view of a flat storage, with an element type
  and the device it lives on.
\<close>

record 'a ndarray =
  nd_shape :: "nat list"
  nd_dtype :: dtype
  nd_data :: "'a list"

record 'a tensor =
  t_sizes :: "nat list"
  t_strides :: "nat list"
  t_storage :: "'a list"
  t_dtype :: dtype
  t_device :: device

text \<open>Row-major strides of a freshly allocated array of the given shape.\<close>

fun contiguous_strides :: "nat list \<Rightarrow> nat list" where
  "contiguous_strides [] = []"
| "contiguous_strides (n # ns) = prod_list (map (max 1) ns) # contiguous_strides ns"

text \<open>All multi-indices of a shape, in row-major order.\<close>

fun indices :: "nat list \<Rightarrow> nat list list" where
  "indices [] = [[]]"
| "indices (n # ns) = concat (map (\<lambda>i. map ((#) i) (indices ns)) [0..<n])"

definition offset :: "nat list \<Rightarrow> nat list \<Rightarrow> nat" where
  "offset strides idx = sum_list (map2 (*) idx strides)"

text \<open>
  Reading one element. An index of the wrong rank or out of range is an IndexError in
  the libraries; here it is \<open>None\<close>, as is a read past the end of the storage.
\<close>

definition element :: "'a list \<Rightarrow> nat list \<Rightarrow> nat list \<Rightarrow> nat list \<Rightarrow> 'a option" where
  "element store sizes strides idx =
     (if list_all2 (<) idx sizes
      then (let off = offset strides idx
            in if off < length store then Some (store ! off) else None)
      else None)"

definition nd_get :: "'a ndarray \<Rightarrow> nat list \<Rightarrow> 'a option" where
  "nd_get a idx = element (nd_data a) (nd_shape a) (contiguous_strides (nd_shape a)) idx"

definition t_get :: "'a tensor \<Rightarrow> nat list \<Rightarrow> 'a option" where
  "t_get t idx = element (t_storage t) (t_sizes t) (t_strides t) idx"

subsection \<open>The collaborators\<close>

text \<open>
  Modelled from the spec: the conversion to floating point that the resize routine
  applies to its input before it interpolates (\<open>skimage\<close>'s \<open>img_as_float\<close>, a library
  that is not part of the repository). The spec says only that the values pass through
  resizing as floating-point intensities. The library scales the values of an 8-bit
  integer frame by 1/255, so that 255 becomes 1.0, and leaves a floating-point frame as
  it is.
\<close>

definition img_as_float :: "('a::field) ndarray \<Rightarrow> 'a ndarray" where
  "img_as_float img =
     (case nd_dtype img of
        UInt8 \<Rightarrow> img\<lparr>nd_dtype := Float64, nd_data := map (\<lambda>v. v / 255) (nd_data img)\<rparr>
      | _ \<Rightarrow> img)"

text \<open>
  Modelled from the spec: the resize routine (\<open>skimage.transform.resize\<close>, a library
  that is not part of the repository). The spec has it resize spatially to exactly the
  requested (height, width) with the channel count unchanged, give floating-point
  intensities, take a flag that switches anti-aliasing, and fail on an incompatible
  array shape. The spec also expects it to fail on a zero target dimension; the library
  does not: it raises for a negative dimension only, and for a zero dimension it returns
  an array with no elements. The model follows the library there. The interpolation
  itself is floating-point arithmetic: it is the parameter \<open>interp\<close>, which gives the
  value at each index of the output from the flag, the converted input and the target
  size.
\<close>

definition resize ::
  "(bool \<Rightarrow> 'a ndarray \<Rightarrow> nat \<times> nat \<Rightarrow> nat list \<Rightarrow> 'a) \<Rightarrow>
   ('a::field) ndarray \<Rightarrow> int \<times> int \<Rightarrow> bool \<Rightarrow> error + 'a ndarray" where
  "resize interp img output_shape anti_aliasing =
     (case output_shape of (h, w) \<Rightarrow>
        if h < 0 \<or> w < 0
        then Inl (ResizeError ''negative target dimensions'')
        else if length (nd_shape img) \<noteq> 2 \<and> length (nd_shape img) \<noteq> 3
        then Inl (ResizeError ''incompatible array shape'')
        else (let shp = [nat h, nat w] @ drop 2 (nd_shape img)
              in Inr \<lparr>nd_shape = shp, nd_dtype = Float64,
                      nd_data = map (interp anti_aliasing (img_as_float img) (nat h, nat w))
                                    (indices shp)\<rparr>))"

text \<open>
  Modelled from the spec: array-to-tensor conversion (\<open>torch.Tensor\<close>, not part of the
  repository). The dimension order is preserved, the tensor is freshly allocated (so
  contiguous) on the CPU and has the library's default element type, 32-bit floating
  point, whatever the array's element type was. Rounding a value to that type is the
  parameter \<open>to_f32\<close>.
\<close>

definition torch_Tensor :: "('a \<Rightarrow> 'a) \<Rightarrow> 'a ndarray \<Rightarrow> 'a tensor" where
  "torch_Tensor to_f32 k =
     \<lparr>t_sizes = nd_shape k, t_strides = contiguous_strides (nd_shape k),
      t_storage = map to_f32 (nd_data k), t_dtype = Float32, t_device = CPU\<rparr>"

text \<open>
  Modelled from the spec: axis permutation (\<open>Tensor.permute\<close>, not part of the
  repository): a view of the same storage whose axis \<open>m\<close> is the axis \<open>dims ! m\<close> of
  the argument. The library raises when \<open>dims\<close> is not a permutation of the axes.
\<close>

definition permute :: "nat list \<Rightarrow> 'a tensor \<Rightarrow> error + 'a tensor" where
  "permute dims t =
     (if length dims \<noteq> length (t_sizes t)
      then Inl (RuntimeError ''number of dims does not match in permute'')
      else if \<not> (distinct dims \<and> list_all (\<lambda>d. d < length (t_sizes t)) dims)
      then Inl (RuntimeError ''repeated or out-of-range dim in permute'')
      else Inr (t\<lparr>t_sizes := map (\<lambda>d. t_sizes t ! d) dims,
                  t_strides := map (\<lambda>d. t_strides t ! d) dims\<rparr>))"

text \<open>
  Modelled from the spec: insertion of a new dimension of size 1 (\<open>Tensor.unsqueeze\<close>,
  not part of the repository), again a view of the same storage.
\<close>

definition unsqueeze :: "nat \<Rightarrow> 'a tensor \<Rightarrow> error + 'a tensor" where
  "unsqueeze d t =
     (let n = length (t_sizes t)
      in if n < d then Inl (RuntimeError ''dimension out of range'')
         else (let st = (if d < n then t_sizes t ! d * t_strides t ! d else 1)
               in Inr (t\<lparr>t_sizes := take d (t_sizes t) @ 1 # drop d (t_sizes t),
                         t_strides := take d (t_strides t) @ st # drop d (t_strides t)\<rparr>)))"

text \<open>
  Modelled from the spec: transfer of a tensor to a device (\<open>Tensor.to\<close>, not part of the
  repository). Which devices the machine has is the parameter \<open>avail\<close>; placement on
  an unknown or unavailable device fails.
\<close>

definition tensor_to :: "(device \<Rightarrow> bool) \<Rightarrow> 'a tensor \<Rightarrow> device \<Rightarrow> error + 'a tensor" where
  "tensor_to avail t d =
     (if avail d then Inr (t\<lparr>t_device := d\<rparr>)
      else Inl (RuntimeError ''device unavailable''))"

subsection \<open>The function\<close>

text \<open>Sequencing of statements: the first exception ends the function.\<close>

definition ebind :: "error + 'a \<Rightarrow> ('a \<Rightarrow> error + 'b) \<Rightarrow> error + 'b" where
  "ebind r f = (case r of Inl e \<Rightarrow> Inl e | Inr x \<Rightarrow> f x)"

text \<open>
  \<open>get_screen\<close>, line by line. \<open>render\<close> is the environment's method: from the
  handle and the mode it gives an array or an exception, and the handle afterwards.
\<close>

definition get_screen ::
  "('env \<Rightarrow> string \<Rightarrow> (error + ('a::field) ndarray) \<times> 'env) \<Rightarrow>
   (bool \<Rightarrow> 'a ndarray \<Rightarrow> nat \<times> nat \<Rightarrow> nat list \<Rightarrow> 'a) \<Rightarrow> ('a \<Rightarrow> 'a) \<Rightarrow> (device \<Rightarrow> bool) \<Rightarrow>
   'env \<Rightarrow> device \<Rightarrow> int \<Rightarrow> int \<Rightarrow> (error + 'a tensor) \<times> 'env" where
  "get_screen render interp to_f32 avail env device h w =
     (case render env ''rgb_array'' of
        (Inl e, env') \<Rightarrow> (Inl e, env')
      | (Inr k, env') \<Rightarrow>
          (ebind (resize interp k (h, w) False) (\<lambda>k.
           ebind (Inr (torch_Tensor to_f32 k)) (\<lambda>k.
           ebind (ebind (permute [2, 1, 0] k) (unsqueeze 0)) (\<lambda>k.
           tensor_to avail k device))), env'))"

text \<open>
  The signature \<open>get_screen(env, device, h=80, w=80)\<close>: an argument the caller leaves
  out takes its default.
\<close>

definition get_screen_call ::
  "('env \<Rightarrow> string \<Rightarrow> (error + ('a::field) ndarray) \<times> 'env) \<Rightarrow>
   (bool \<Rightarrow> 'a ndarray \<Rightarrow> nat \<times> nat \<Rightarrow> nat list \<Rightarrow> 'a) \<Rightarrow> ('a \<Rightarrow> 'a) \<Rightarrow> (device \<Rightarrow> bool) \<Rightarrow>
   'env \<Rightarrow> device \<Rightarrow> int option \<Rightarrow> int option \<Rightarrow> (error + 'a tensor) \<times> 'env" where
  "get_screen_call render interp to_f32 avail env device h w =
     get_screen render interp to_f32 avail env device
       (case h of None \<Rightarrow> 80 | Some h' \<Rightarrow> h') (case w of None \<Rightarrow> 80 | Some w' \<Rightarrow> w')"

subsection \<open>Sample collaborators for the concrete instances\<close>

text \<open>
  A 2 by 2 frame of 8-bit values with three channels; an environment that renders this
  frame whatever its state and counts the calls; an interpolation kernel whose value
  spells out, in decimal digits, the index it is asked for (and differs when
  anti-aliasing is on); a kernel that samples the input at the index it is asked for, as
  a resize to the size of the input does; a machine with no accelerator.
\<close>

abbreviation frame2x2 :: "rat ndarray" where
  "frame2x2 \<equiv> \<lparr>nd_shape = [2, 2, 3], nd_dtype = UInt8,
                nd_data = [0, 51, 102, 153, 204, 255, 255, 204, 153, 102, 51, 0]\<rparr>"

abbreviation still_env :: "nat \<Rightarrow> string \<Rightarrow> (error + rat ndarray) \<times> nat" where
  "still_env \<equiv> \<lambda>n mode. (Inr frame2x2, Suc n)"

abbreviation index_kernel :: "bool \<Rightarrow> rat ndarray \<Rightarrow> nat \<times> nat \<Rightarrow> nat list \<Rightarrow> rat" where
  "index_kernel \<equiv> \<lambda>aa img hw idx.
      (if aa then 1000 else 0) + of_nat (foldl (\<lambda>a d. 10 * a + d) 0 idx)"

abbreviation sample_kernel :: "bool \<Rightarrow> rat ndarray \<Rightarrow> nat \<times> nat \<Rightarrow> nat list \<Rightarrow> rat" where
  "sample_kernel \<equiv> \<lambda>aa img hw idx. (case nd_get img idx of Some v \<Rightarrow> v | None \<Rightarrow> 0)"

abbreviation only_cpu :: "device \<Rightarrow> bool" where
  "only_cpu \<equiv> \<lambda>d. d = CPU"

section \<open>Properties\<close>

subsection \<open>Sequencing\<close>

lemma ebind_Inl [simp]: "ebind (Inl e) f = Inl e"
  by (simp add: ebind_def)

lemma ebind_Inr [simp]: "ebind (Inr x) f = f x"
  by (simp add: ebind_def)

subsection \<open>Row-major enumeration\<close>

lemma length_indices: "length (indices shp) = prod_list shp"
  by (induction shp) (simp_all add: length_concat comp_def sum_list_triv)

lemma length_concat_blocks:
  "(\<And>i. i < n \<Longrightarrow> length (f i) = m) \<Longrightarrow> length (concat (map f [0..<n])) = n * m"
  by (induction n) simp_all

lemma nth_concat_blocks:
  assumes "\<And>i. i < n \<Longrightarrow> length (f i) = m" "i < n" "r < m"
  shows "concat (map f [0..<n]) ! (i * m + r) = f i ! r"
  using assms
proof (induction n)
  case 0
  then show ?case by simp
next
  case (Suc n)
  have len: "length (concat (map f [0..<n])) = n * m"
    using Suc.prems(1) by (intro length_concat_blocks) simp
  show ?case
  proof (cases "i < n")
    case True
    have "i * m + r < i * m + m" using Suc.prems(3) by simp
    also have "\<dots> = Suc i * m" by simp
    also have "\<dots> \<le> n * m" using True by (intro mult_le_mono1) simp
    finally have "i * m + r < n * m" .
    then show ?thesis
      using Suc True len by (simp add: nth_append)
  next
    case False
    then have "i = n" using Suc.prems(2) by simp
    then show ?thesis
      using Suc.prems len by (simp add: nth_append)
  qed
qed

lemma positive_sizes: "list_all2 (<) idx (ns::nat list) \<Longrightarrow> map (max 1) ns = ns"
  by (induction idx ns rule: list_all2_induct) auto

text \<open>
  The row-major offset of a valid index is the position of that index in the
  enumeration.
\<close>

lemma indices_nth:
  "list_all2 (<) idx shp \<Longrightarrow>
     offset (contiguous_strides shp) idx < prod_list shp
     \<and> indices shp ! offset (contiguous_strides shp) idx = idx"
proof (induction shp arbitrary: idx)
  case Nil
  then show ?case by (simp add: offset_def)
next
  case (Cons n ns)
  then obtain i js where idx: "idx = i # js" and i: "i < n" and js: "list_all2 (<) js ns"
    by (auto simp: list_all2_Cons2)
  have pos: "map (max 1) ns = ns" using js by (rule positive_sizes)
  let ?r = "offset (contiguous_strides ns) js"
  have r: "?r < prod_list ns" and nth: "indices ns ! ?r = js"
    using Cons.IH [OF js] by simp_all
  have off: "offset (contiguous_strides (n # ns)) idx = i * prod_list ns + ?r"
    using pos by (simp add: offset_def idx)
  have blk: "concat (map (\<lambda>i. map ((#) i) (indices ns)) [0..<n]) ! (i * prod_list ns + ?r)
               = map ((#) i) (indices ns) ! ?r"
    using nth_concat_blocks [of n "\<lambda>i. map ((#) i) (indices ns)" "prod_list ns" i ?r] i r
    by (simp add: length_indices)
  have lt: "i * prod_list ns + ?r < n * prod_list ns"
  proof -
    have "i * prod_list ns + ?r < i * prod_list ns + prod_list ns" using r by simp
    also have "\<dots> = Suc i * prod_list ns" by simp
    also have "\<dots> \<le> n * prod_list ns" using i by (intro mult_le_mono1) simp
    finally show ?thesis .
  qed
  show ?case
  proof
    show "offset (contiguous_strides (n # ns)) idx < prod_list (n # ns)"
      using lt by (simp only: off prod_list.Cons)
    have "indices (n # ns) ! offset (contiguous_strides (n # ns)) idx
            = map ((#) i) (indices ns) ! ?r"
      by (simp only: off indices.simps blk)
    also have "\<dots> = idx"
      using r nth by (simp add: idx length_indices)
    finally show "indices (n # ns) ! offset (contiguous_strides (n # ns)) idx = idx" .
  qed
qed

lemma nd_get_enumerated:
  assumes "list_all2 (<) idx shp"
  shows "nd_get \<lparr>nd_shape = shp, nd_dtype = ty, nd_data = map g (indices shp)\<rparr> idx = Some (g idx)"
  using assms indices_nth [OF assms]
  by (simp add: nd_get_def element_def length_indices)

subsection \<open>The steps of \<open>get_screen\<close>\<close>

lemma length_3_conv: "length xs = 3 \<longleftrightarrow> (\<exists>a b c. xs = [a, b, c])"
  by (auto simp: numeral_3_eq_3 length_Suc_conv)

lemma resize_3d:
  assumes "0 \<le> h" "0 \<le> w" "nd_shape k = [H0, W0, C]"
  shows "resize interp k (h, w) aa =
     Inr \<lparr>nd_shape = [nat h, nat w, C], nd_dtype = Float64,
          nd_data = map (interp aa (img_as_float k) (nat h, nat w))
                        (indices [nat h, nat w, C])\<rparr>"
  using assms by (simp add: resize_def Let_def del: indices.simps)

lemma resize_Inr_shape:
  assumes "resize interp k (h, w) aa = Inr r"
  shows "0 \<le> h \<and> 0 \<le> w \<and> length (nd_shape r) = length (nd_shape k)"
  using assms by (auto simp: resize_def Let_def split: if_splits)

lemma permute_3d:
  assumes "nd_shape r = [H, W, C]"
  shows "permute [2, 1, 0] (torch_Tensor f r) =
     Inr \<lparr>t_sizes = [C, W, H], t_strides = [1, max 1 C, max 1 W * max 1 C],
          t_storage = map f (nd_data r), t_dtype = Float32, t_device = CPU\<rparr>"
  using assms by (simp add: permute_def torch_Tensor_def)

lemma unsqueeze_3d:
  "unsqueeze 0 \<lparr>t_sizes = [C, W, H], t_strides = [1, a, b],
          t_storage = store, t_dtype = ty, t_device = dev\<rparr> =
     Inr \<lparr>t_sizes = [1, C, W, H], t_strides = [C, 1, a, b],
          t_storage = store, t_dtype = ty, t_device = dev\<rparr>"
  by (simp add: unsqueeze_def)

lemma permute_rank:
  assumes "permute [2, 1, 0] (torch_Tensor f r) = Inr p"
  shows "length (nd_shape r) = 3"
  using assms by (simp add: permute_def torch_Tensor_def split: if_splits)

text \<open>What a successful call returns, and when a call is successful.\<close>

lemma get_screen_ok:
  assumes "render env ''rgb_array'' = (Inr k, env')" "nd_shape k = [H0, W0, C]"
    "0 \<le> h" "0 \<le> w" "avail device"
  shows "get_screen render interp f avail env device h w =
     (Inr \<lparr>t_sizes = [1, C, nat w, nat h],
          t_strides = [C, 1, max 1 C, max 1 (nat w) * max 1 C],
          t_storage = map f (map (interp False (img_as_float k) (nat h, nat w))
                                 (indices [nat h, nat w, C])),
          t_dtype = Float32, t_device = device\<rparr>, env')"
proof -
  let ?r = "\<lparr>nd_shape = [nat h, nat w, C], nd_dtype = Float64,
          nd_data = map (interp False (img_as_float k) (nat h, nat w))
                        (indices [nat h, nat w, C])\<rparr>"
  have r: "resize interp k (h, w) False = Inr ?r"
    using assms(3,4,2) by (rule resize_3d)
  have "nd_shape ?r = [nat h, nat w, C]" by simp
  note p = permute_3d [OF this, of f]
  show ?thesis
    unfolding get_screen_def assms(1) prod.case sum.case r ebind_Inr p unsqueeze_3d
    using assms(5) by (simp add: tensor_to_def del: indices.simps One_nat_def)
qed

text \<open>
  The intermediate values of a call that returns a tensor: the resized array, the
  permuted view, the view with the batch axis, and the tensor on the device.
\<close>

lemma get_screen_steps:
  assumes "render env ''rgb_array'' = (Inr k, env')"
    and "fst (get_screen render interp f avail env device h w) = Inr t"
  shows "\<exists>H0 W0 C A P Q. nd_shape k = [H0, W0, C] \<and> 0 \<le> h \<and> 0 \<le> w \<and> avail device
     \<and> A = \<lparr>nd_shape = [nat h, nat w, C], nd_dtype = Float64,
             nd_data = map (interp False (img_as_float k) (nat h, nat w))
                           (indices [nat h, nat w, C])\<rparr>
     \<and> P = \<lparr>t_sizes = [C, nat w, nat h], t_strides = [1, max 1 C, max 1 (nat w) * max 1 C],
             t_storage = map f (nd_data A), t_dtype = Float32, t_device = CPU\<rparr>
     \<and> Q = P\<lparr>t_sizes := [1, C, nat w, nat h],
              t_strides := [C, 1, max 1 C, max 1 (nat w) * max 1 C]\<rparr>
     \<and> t = Q\<lparr>t_device := device\<rparr>
     \<and> resize interp k (h, w) False = Inr A
     \<and> permute [2, 1, 0] (torch_Tensor f A) = Inr P
     \<and> unsqueeze 0 P = Inr Q
     \<and> tensor_to avail Q device = Inr t"
proof -
  from assms obtain r p q where
    r: "resize interp k (h, w) False = Inr r" and
    p: "permute [2, 1, 0] (torch_Tensor f r) = Inr p" and
    q: "unsqueeze 0 p = Inr q" and
    t: "tensor_to avail q device = Inr t"
    by (auto simp: get_screen_def ebind_def split: sum.splits)
  from r have hw: "0 \<le> h" "0 \<le> w" and len: "length (nd_shape r) = length (nd_shape k)"
    using resize_Inr_shape by blast+
  from p have "length (nd_shape r) = 3" by (rule permute_rank)
  with len obtain H0 W0 C where k: "nd_shape k = [H0, W0, C]"
    by (auto simp: length_3_conv)
  let ?A = "\<lparr>nd_shape = [nat h, nat w, C], nd_dtype = Float64,
             nd_data = map (interp False (img_as_float k) (nat h, nat w))
                           (indices [nat h, nat w, C])\<rparr>"
  let ?P = "\<lparr>t_sizes = [C, nat w, nat h], t_strides = [1, max 1 C, max 1 (nat w) * max 1 C],
             t_storage = map f (nd_data ?A), t_dtype = Float32, t_device = CPU\<rparr>"
  let ?Q = "?P\<lparr>t_sizes := [1, C, nat w, nat h],
              t_strides := [C, 1, max 1 C, max 1 (nat w) * max 1 C]\<rparr>"
  have r': "r = ?A"
    using r resize_3d [OF hw k, of interp False] by simp
  have "nd_shape ?A = [nat h, nat w, C]" by simp
  from permute_3d [OF this, of f] have pA: "permute [2, 1, 0] (torch_Tensor f ?A) = Inr ?P" .
  with p r' have p': "p = ?P" by simp
  have qP: "unsqueeze 0 ?P = Inr ?Q"
    by (simp add: unsqueeze_def del: indices.simps)
  with q p' have q': "q = ?Q" by simp
  from t have av: "avail device" and t': "t = q\<lparr>t_device := device\<rparr>"
    by (auto simp: tensor_to_def split: if_splits)
  have tQ: "tensor_to avail ?Q device = Inr t"
    using t q' by simp
  show ?thesis
    using k hw av r r' pA qP tQ t' q' by blast
qed

lemma get_screen_Inr:
  assumes "render env ''rgb_array'' = (Inr k, env')"
    and "fst (get_screen render interp f avail env device h w) = Inr t"
  shows "\<exists>H0 W0 C. nd_shape k = [H0, W0, C] \<and> 0 \<le> h \<and> 0 \<le> w \<and> avail device \<and>
     t = \<lparr>t_sizes = [1, C, nat w, nat h],
          t_strides = [C, 1, max 1 C, max 1 (nat w) * max 1 C],
          t_storage = map f (map (interp False (img_as_float k) (nat h, nat w))
                                 (indices [nat h, nat w, C])),
          t_dtype = Float32, t_device = device\<rparr>"
proof -
  from get_screen_steps [OF assms] obtain H0 W0 C where
    "nd_shape k = [H0, W0, C]" "0 \<le> h" "0 \<le> w" "avail device"
    by blast
  with get_screen_ok [of render env k env' H0 W0 C h w avail device interp f] assms
  show ?thesis
    by auto
qed

text \<open>
  Reading a view at (k, j, i) reads a row-major array at (i, j, k) when the strides of
  the view are those of the array in the opposite order; a leading axis of size 1 does
  not change what is read.
\<close>

lemma element_reversed:
  "element store [C, W, H] [1, a, b] [k, j, i] = element store [H, W, C] [b, a, 1] [i, j, k]"
proof -
  have "offset [1, a, b] [k, j, i] = offset [b, a, 1] [i, j, k]"
    by (simp add: offset_def)
  then show ?thesis
    by (auto simp: element_def Let_def)
qed

lemma element_batch:
  "element store [1, C, W, H] [s, 1, a, b] [0, k, j, i]
     = element store [C, W, H] [1, a, b] [k, j, i]"
proof -
  have "offset [s, 1, a, b] [0, k, j, i] = offset [1, a, b] [k, j, i]"
    by (simp add: offset_def)
  then show ?thesis
    by (auto simp: element_def Let_def)
qed

lemma get_screen_rendered:
  assumes "fst (get_screen render interp f avail env device h w) = Inr t"
  shows "\<exists>k env'. render env ''rgb_array'' = (Inr k, env')"
proof (cases "render env ''rgb_array''")
  case (Pair res env')
  with assms show ?thesis
    by (cases res) (simp_all add: get_screen_def)
qed

text \<open>What the kernel would give with anti-aliasing on is never asked for.\<close>

lemma get_screen_kernel:
  "get_screen render interp f avail env device h w
     = get_screen render (\<lambda>aa. interp False) f avail env device h w"
  by (simp add: get_screen_def resize_def split: prod.splits sum.splits)

text \<open>Reading the converted tensor and its views in terms of the resized array.\<close>

lemma element_map:
  "element (map f store) sizes strides idx = map_option f (element store sizes strides idx)"
  by (simp add: element_def Let_def)

lemma torch_Tensor_get:
  "t_get (torch_Tensor f A) idx = map_option f (nd_get A idx)"
  by (simp add: t_get_def nd_get_def torch_Tensor_def element_map)

lemma permuted_get:
  assumes "nd_shape A = [H, W, C]"
  shows "t_get \<lparr>t_sizes = [C, W, H], t_strides = [1, max 1 C, max 1 W * max 1 C],
               t_storage = map f (nd_data A), t_dtype = ty, t_device = dev\<rparr> [ch, j, i]
         = t_get (torch_Tensor f A) [i, j, ch]"
proof -
  have "contiguous_strides [H, W, C] = [max 1 W * max 1 C, max 1 C, 1]"
    by (simp del: One_nat_def)
  then show ?thesis
    by (simp only: t_get_def torch_Tensor_def assms tensor.simps element_reversed)
qed

lemma batched_get:
  "t_get \<lparr>t_sizes = [1, C, W, H], t_strides = [s, 1, a, b],
          t_storage = store, t_dtype = ty, t_device = dev\<rparr> [0, ch, j, i]
   = t_get \<lparr>t_sizes = [C, W, H], t_strides = [1, a, b],
          t_storage = store, t_dtype = ty', t_device = dev'\<rparr> [ch, j, i]"
  by (simp only: t_get_def tensor.simps element_batch)

subsection \<open>Shape of the result\<close>

text \<open>
  C1. For an environment whose render gives an array of shape (H0, W0, 3), positive
  target height \<open>h\<close> and width \<open>w\<close>, and a device that is available, \<open>get_screen\<close>
  returns a tensor of four dimensions with sizes (1, 3, w, h): batch, channels, width,
  height, the two spatial axes in the opposite order to the resize target (h, w).
\<close>

theorem get_screen_shape:
  assumes "render env ''rgb_array'' = (Inr k, env')" and "nd_shape k = [H0, W0, 3]"
    and "0 < h" and "0 < w" and "avail device"
  shows "\<exists>t. fst (get_screen render interp to_f32 avail env device h w) = Inr t
           \<and> t_sizes t = [1, 3, nat w, nat h] \<and> length (t_sizes t) = 4"
  using get_screen_ok [of render env k env' H0 W0 3 h w avail device interp to_f32] assms
  by simp

theorem get_screen_shape_witness:
  "\<exists>t. fst (get_screen still_env index_kernel id only_cpu 0 CPU 1 2) = Inr t
        \<and> t_sizes t = [1, 3, 2, 1] \<and> length (t_sizes t) = 4"
  using get_screen_shape [of still_env 0 frame2x2 1 2 2 1 2 only_cpu CPU index_kernel id]
  by simp

text \<open>
  C8. The signature gives \<open>h\<close> and \<open>w\<close> the default 80: a call that leaves both
  out is the call with height 80 and width 80, and for a rendered frame with \<open>C\<close>
  channels (and an available device) it returns a tensor of sizes (1, C, 80, 80).
\<close>

theorem default_size:
  assumes "render env ''rgb_array'' = (Inr k, env')" and "nd_shape k = [H0, W0, C]"
    and "avail device"
  shows "get_screen_call render interp to_f32 avail env device None None
           = get_screen render interp to_f32 avail env device 80 80
         \<and> (\<exists>t. fst (get_screen_call render interp to_f32 avail env device None None) = Inr t
               \<and> t_sizes t = [1, C, 80, 80])"
  using get_screen_ok [of render env k env' H0 W0 C 80 80 avail device interp to_f32] assms
  by (simp add: get_screen_call_def del: indices.simps)

theorem default_size_witness:
  "\<exists>t. fst (get_screen_call still_env index_kernel id only_cpu 0 CPU None None) = Inr t
      \<and> t_sizes t = [1, 3, 80, 80]"
proof -
  have "still_env 0 ''rgb_array'' = (Inr frame2x2, 1)" "nd_shape frame2x2 = [2, 2, 3]"
    "only_cpu CPU"
    by simp_all
  from default_size [of still_env 0 frame2x2 1 2 2 3 only_cpu CPU index_kernel id, OF this]
  show ?thesis by (rule conjunct2)
qed

subsection \<open>The axis reordering\<close>

text \<open>
  C2. The axis-reordering step of \<open>get_screen\<close> is a pure permutation of axes, from
  (height, width, channels) to (channels, width, height). Whenever a frame was rendered
  and \<open>get_screen\<close> returns a tensor \<open>t\<close>, the call went through the resized array
  \<open>A\<close> of shape (h, w, c), the result \<open>P\<close> of \<open>permute(2, 1, 0)\<close> on the tensor made
  from \<open>A\<close>, and the result \<open>Q\<close> of \<open>unsqueeze(0)\<close> on \<open>P\<close>, and \<open>t\<close> is \<open>Q\<close>
  moved to the device. \<open>P\<close> has sizes (c, w, h) and the very storage of the tensor made
  from \<open>A\<close>: no value is resampled or changed. The element of \<open>P\<close> at (k, j, i) is the
  element at (i, j, k) before the step, for every index; and for all valid \<open>i < h\<close>,
  \<open>j < w\<close>, \<open>k < c\<close> it is the element of \<open>A\<close> at (i, j, k), converted to the tensor's
  element type, which is also what the returned tensor holds at (0, k, j, i).
\<close>

theorem get_screen_axis_permutation:
  assumes "render env ''rgb_array'' = (Inr k, env')"
    and "fst (get_screen render interp to_f32 avail env device h w) = Inr t"
  shows "\<exists>A c P Q. resize interp k (h, w) False = Inr A \<and> nd_shape A = [nat h, nat w, c]
      \<and> permute [2, 1, 0] (torch_Tensor to_f32 A) = Inr P
      \<and> unsqueeze 0 P = Inr Q \<and> tensor_to avail Q device = Inr t
      \<and> t_sizes P = [c, nat w, nat h]
      \<and> t_storage P = t_storage (torch_Tensor to_f32 A)
      \<and> (\<forall>i j ch. t_get P [ch, j, i] = t_get (torch_Tensor to_f32 A) [i, j, ch])
      \<and> (\<forall>i j ch. i < nat h \<and> j < nat w \<and> ch < c \<longrightarrow>
            (\<exists>x. nd_get A [i, j, ch] = Some x
               \<and> t_get P [ch, j, i] = Some (to_f32 x)
               \<and> t_get t [0, ch, j, i] = Some (to_f32 x)))"
proof -
  let ?g = "interp False (img_as_float k) (nat h, nat w)"
  from get_screen_steps [OF assms] obtain C A P Q where
    A: "A = \<lparr>nd_shape = [nat h, nat w, C], nd_dtype = Float64,
             nd_data = map ?g (indices [nat h, nat w, C])\<rparr>" and
    P: "P = \<lparr>t_sizes = [C, nat w, nat h],
             t_strides = [1, max 1 C, max 1 (nat w) * max 1 C],
             t_storage = map to_f32 (nd_data A), t_dtype = Float32, t_device = CPU\<rparr>" and
    Q: "Q = P\<lparr>t_sizes := [1, C, nat w, nat h],
              t_strides := [C, 1, max 1 C, max 1 (nat w) * max 1 C]\<rparr>" and
    t: "t = Q\<lparr>t_device := device\<rparr>" and
    steps: "resize interp k (h, w) False = Inr A"
      "permute [2, 1, 0] (torch_Tensor to_f32 A) = Inr P"
      "unsqueeze 0 P = Inr Q" "tensor_to avail Q device = Inr t"
    by blast
  have shp: "nd_shape A = [nat h, nat w, C]" by (simp add: A)
  have storage: "t_storage P = t_storage (torch_Tensor to_f32 A)"
    by (simp add: P torch_Tensor_def)
  have view: "t_get P [ch, j, i] = t_get (torch_Tensor to_f32 A) [i, j, ch]" for i j ch
    unfolding P by (rule permuted_get [OF shp])
  have batch: "t_get t [0, ch, j, i] = t_get P [ch, j, i]" for i j ch
    unfolding t Q P by (simp only: tensor.simps batched_get)
  have reads: "\<exists>x. nd_get A [i, j, ch] = Some x
               \<and> t_get P [ch, j, i] = Some (to_f32 x)
               \<and> t_get t [0, ch, j, i] = Some (to_f32 x)"
    if "i < nat h \<and> j < nat w \<and> ch < C" for i j ch
  proof -
    from that have "list_all2 (<) [i, j, ch] [nat h, nat w, C]" by simp
    then have "nd_get A [i, j, ch] = Some (?g [i, j, ch])"
      unfolding A by (rule nd_get_enumerated)
    then show ?thesis
      by (simp add: batch view torch_Tensor_get)
  qed
  show ?thesis
    using steps shp storage view reads by (simp add: P)
qed

theorem get_screen_axis_permutation_witness:
  "\<exists>t A. fst (get_screen still_env index_kernel id only_cpu 0 CPU 1 2) = Inr t
      \<and> resize index_kernel frame2x2 (1, 2) False = Inr A
      \<and> t_sizes t = [1, 3, 2, 1]
      \<and> nd_get A [0, 1, 2] = Some 12 \<and> t_get t [0, 2, 1, 0] = Some 12"
proof -
  let ?A = "\<lparr>nd_shape = [1, 2, 3], nd_dtype = Float64,
             nd_data = [0, 1, 2, 10, 11, 12]\<rparr> :: rat ndarray"
  have rA: "resize index_kernel frame2x2 (1, 2) False = Inr ?A"
    by code_simp
  have nd: "nd_get ?A [0, 1, 2] = Some 12"
    by code_simp
  obtain t where t: "fst (get_screen still_env index_kernel id only_cpu 0 CPU 1 2) = Inr t"
    and sz: "t_sizes t = [1, 3, 2, 1]"
    using get_screen_ok [of still_env 0 frame2x2 1 2 2 3 1 2 only_cpu CPU index_kernel id]
    by simp
  have rend: "still_env 0 ''rgb_array'' = (Inr frame2x2, 1)"
    by simp
  from get_screen_axis_permutation
    [of still_env 0 frame2x2 1 index_kernel id only_cpu CPU 1 2 t, OF rend t]
  obtain A c where A: "resize index_kernel frame2x2 (1, 2) False = Inr A"
    and c: "nd_shape A = [nat 1, nat 2, c]"
    and reads: "\<And>i j ch. i < nat 1 \<and> j < nat 2 \<and> ch < c \<Longrightarrow>
        \<exists>x. nd_get A [i, j, ch] = Some x \<and> t_get t [0, ch, j, i] = Some (id x)"
    by blast
  from A rA have A': "A = ?A" by simp
  with c have "c = 3" by simp
  with reads [of 0 1 2] have "\<exists>x. nd_get A [0, 1, 2] = Some x \<and> t_get t [0, 2, 1, 0] = Some (id x)"
    by simp
  with nd A' have "t_get t [0, 2, 1, 0] = Some 12"
    by auto
  with t sz rA nd show ?thesis by blast
qed

subsection \<open>The resize step\<close>

text \<open>
  C3. The resize step is invoked with anti-aliasing off. For every input, the outcome of
  \<open>get_screen\<close> is the same whatever the interpolation would give with anti-aliasing
  on; and whenever a frame \<open>k\<close> was rendered and a tensor \<open>t\<close> is returned, the data of
  \<open>t\<close> are those of the reference resize of \<open>k\<close> to exactly (h, w) with anti-aliasing
  off, whose channel count is that of \<open>k\<close>.
\<close>

theorem resize_without_anti_aliasing:
  "get_screen render interp to_f32 avail env device h w
     = get_screen render (\<lambda>aa. interp False) to_f32 avail env device h w
   \<and> (\<forall>k env' t. render env ''rgb_array'' = (Inr k, env')
          \<and> fst (get_screen render interp to_f32 avail env device h w) = Inr t
        \<longrightarrow> (\<exists>r H0 W0 C. nd_shape k = [H0, W0, C]
               \<and> resize interp k (h, w) False = Inr r
               \<and> nd_shape r = [nat h, nat w, C]
               \<and> t_storage t = map to_f32 (nd_data r)))"
proof (intro conjI allI impI)
  show "get_screen render interp to_f32 avail env device h w
     = get_screen render (\<lambda>aa. interp False) to_f32 avail env device h w"
    by (rule get_screen_kernel)
next
  fix k env' t
  assume a: "render env ''rgb_array'' = (Inr k, env')
          \<and> fst (get_screen render interp to_f32 avail env device h w) = Inr t"
  then obtain H0 W0 C where k: "nd_shape k = [H0, W0, C]" and hw: "0 \<le> h" "0 \<le> w"
    and t: "t_storage t
      = map to_f32 (map (interp False (img_as_float k) (nat h, nat w))
                        (indices [nat h, nat w, C]))"
    using get_screen_Inr [of render env k env' interp to_f32 avail device h w t] by auto
  show "\<exists>r H0 W0 C. nd_shape k = [H0, W0, C]
               \<and> resize interp k (h, w) False = Inr r
               \<and> nd_shape r = [nat h, nat w, C]
               \<and> t_storage t = map to_f32 (nd_data r)"
    using k t resize_3d [OF hw k, of interp False] by simp
qed

theorem resize_without_anti_aliasing_witness:
  "get_screen still_env index_kernel id only_cpu 0 CPU 1 2
     = get_screen still_env (\<lambda>aa. index_kernel False) id only_cpu 0 CPU 1 2
   \<and> (\<exists>t r. fst (get_screen still_env index_kernel id only_cpu 0 CPU 1 2) = Inr t
          \<and> resize index_kernel frame2x2 (1, 2) False = Inr r
          \<and> nd_shape r = [1, 2, 3] \<and> t_storage t = map id (nd_data r)
          \<and> nd_data r = [0, 1, 2, 10, 11, 12]
          \<and> resize index_kernel frame2x2 (1, 2) True \<noteq> Inr r)"
proof -
  note inst = resize_without_anti_aliasing [of still_env index_kernel id only_cpu 0 CPU 1 2]
  let ?r = "\<lparr>nd_shape = [1, 2, 3], nd_dtype = Float64,
             nd_data = [0, 1, 2, 10, 11, 12]\<rparr> :: rat ndarray"
  have off: "resize index_kernel frame2x2 (1, 2) False = Inr ?r"
    by code_simp
  have on: "resize index_kernel frame2x2 (1, 2) True \<noteq> Inr ?r"
    by code_simp
  obtain t where t: "fst (get_screen still_env index_kernel id only_cpu 0 CPU 1 2) = Inr t"
    using get_screen_ok [of still_env 0 frame2x2 1 2 2 3 1 2 only_cpu CPU index_kernel id]
    by simp
  with inst obtain r where "resize index_kernel frame2x2 (1, 2) False = Inr r"
    and "t_storage t = map id (nd_data r)"
    by blast
  with off on t have "\<exists>t r. fst (get_screen still_env index_kernel id only_cpu 0 CPU 1 2) = Inr t
          \<and> resize index_kernel frame2x2 (1, 2) False = Inr r
          \<and> nd_shape r = [1, 2, 3] \<and> t_storage t = map id (nd_data r)
          \<and> nd_data r = [0, 1, 2, 10, 11, 12]
          \<and> resize index_kernel frame2x2 (1, 2) True \<noteq> Inr r"
    by auto
  with inst show ?thesis by blast
qed




subsection \<open>Values, element type and device of the result\<close>

text \<open>
  C5, as amended. \<open>get_screen\<close> itself applies no rescaling or clamping: whenever a
  frame \<open>k\<close> was rendered and a tensor \<open>t\<close> is returned, then for every \<open>i\<close> below the
  height, \<open>j\<close> below the width and channel \<open>c\<close>, the element of \<open>t\<close> at (0, c, j, i)
  is the intensity that the resize step (anti-aliasing off) produced at (i, j, c),
  converted to the tensor's floating-point type and not changed otherwise. The values
  are normalised all the same, inside the resize step: for a frame of 8-bit integers it
  interpolates the values divided by 255, not the renderer's values; a floating-point
  frame is not rescaled.
\<close>

theorem values_from_resize:
  assumes "render env ''rgb_array'' = (Inr k, env')"
    and "fst (get_screen render interp to_f32 avail env device h w) = Inr t"
    and "i < nat h" and "j < nat w" and "c < nd_shape k ! 2"
  shows "\<exists>r. resize interp k (h, w) False = Inr r
           \<and> nd_get r [i, j, c] = Some (interp False (img_as_float k) (nat h, nat w) [i, j, c])
           \<and> t_get t [0, c, j, i]
               = Some (to_f32 (interp False (img_as_float k) (nat h, nat w) [i, j, c]))
           \<and> t_storage t = map to_f32 (nd_data r)
           \<and> nd_data (img_as_float k)
               = (if nd_dtype k = UInt8 then map (\<lambda>v. v / 255) (nd_data k) else nd_data k)"
proof -
  let ?g = "interp False (img_as_float k) (nat h, nat w)"
  from get_screen_steps [OF assms(1,2)] obtain H0 W0 C A P Q where
    k: "nd_shape k = [H0, W0, C]" and
    A: "A = \<lparr>nd_shape = [nat h, nat w, C], nd_dtype = Float64,
             nd_data = map ?g (indices [nat h, nat w, C])\<rparr>" and
    P: "P = \<lparr>t_sizes = [C, nat w, nat h],
             t_strides = [1, max 1 C, max 1 (nat w) * max 1 C],
             t_storage = map to_f32 (nd_data A), t_dtype = Float32, t_device = CPU\<rparr>" and
    Q: "Q = P\<lparr>t_sizes := [1, C, nat w, nat h],
              t_strides := [C, 1, max 1 C, max 1 (nat w) * max 1 C]\<rparr>" and
    t: "t = Q\<lparr>t_device := device\<rparr>" and
    r: "resize interp k (h, w) False = Inr A"
    by blast
  have shp: "nd_shape A = [nat h, nat w, C]" by (simp add: A)
  have "c < C" using assms(5) k by simp
  with assms(3,4) have "list_all2 (<) [i, j, c] [nat h, nat w, C]" by simp
  then have nd: "nd_get A [i, j, c] = Some (?g [i, j, c])"
    unfolding A by (rule nd_get_enumerated)
  have "t_get t [0, c, j, i] = t_get P [c, j, i]"
    unfolding t Q P by (simp only: tensor.simps batched_get)
  also have "\<dots> = t_get (torch_Tensor to_f32 A) [i, j, c]"
    unfolding P by (rule permuted_get [OF shp])
  also have "\<dots> = Some (to_f32 (?g [i, j, c]))"
    by (simp add: torch_Tensor_get nd)
  finally have tg: "t_get t [0, c, j, i] = Some (to_f32 (?g [i, j, c]))" .
  have st: "t_storage t = map to_f32 (nd_data A)"
    by (simp add: t Q P)
  have fl: "nd_data (img_as_float k)
               = (if nd_dtype k = UInt8 then map (\<lambda>v. v / 255) (nd_data k) else nd_data k)"
    by (cases "nd_dtype k") (simp_all add: img_as_float_def)
  from r nd tg st fl show ?thesis by blast
qed

theorem values_from_resize_witness:
  "\<exists>t. fst (get_screen still_env sample_kernel (\<lambda>x. x) only_cpu 0 CPU 2 2) = Inr t
      \<and> nd_get frame2x2 [1, 0, 1] = Some 204
      \<and> t_get t [0, 1, 0, 1] = Some (204 / 255)"
proof -
  obtain t where t: "fst (get_screen still_env sample_kernel (\<lambda>x. x) only_cpu 0 CPU 2 2) = Inr t"
    using get_screen_ok [of still_env 0 frame2x2 1 2 2 3 2 2 only_cpu CPU sample_kernel "\<lambda>x. x"]
    by simp
  have rend: "still_env 0 ''rgb_array'' = (Inr frame2x2, 1)"
    by simp
  have "t_get t [0, 1, 0, 1]
      = Some (sample_kernel False (img_as_float frame2x2) (nat 2, nat 2) [1, 0, 1])"
    using values_from_resize
      [of still_env 0 frame2x2 1 sample_kernel "\<lambda>x. x" only_cpu CPU 2 2 t 1 0 1, OF rend t]
    by auto
  moreover have "sample_kernel False (img_as_float frame2x2) (nat 2, nat 2) [1, 0, 1]
      = 204 / 255"
    by code_simp
  moreover have "nd_get frame2x2 [1, 0, 1] = Some 204"
    by code_simp
  ultimately show ?thesis using t by auto
qed

text \<open>
  C5 as first stated, that the returned values are not normalised to a fixed range,
  fails for a frame of 8-bit integers: resized to its own size, the 2 by 2 frame with
  values from 0 to 255 comes back with every value between 0 and 1, and the intensity
  255 of the frame at (0, 1, 2) is 1 in the tensor at (0, 2, 1, 0).
\<close>

theorem normalised_values_counterexample:
  "\<exists>t. fst (get_screen still_env sample_kernel id only_cpu 0 CPU 2 2) = Inr t
      \<and> nd_get frame2x2 [0, 1, 2] = Some 255 \<and> t_get t [0, 2, 1, 0] = Some 1
      \<and> list_all (\<lambda>v. 0 \<le> v \<and> v \<le> 1) (t_storage t)
      \<and> \<not> list_all (\<lambda>v. 0 \<le> v \<and> v \<le> 1) (nd_data frame2x2)"
proof -
  let ?t = "\<lparr>t_sizes = [1, 3, 2, 2], t_strides = [3, 1, 3, 6],
             t_storage = [0, 1 / 5, 2 / 5, 3 / 5, 4 / 5, 1, 1, 4 / 5, 3 / 5, 2 / 5, 1 / 5, 0],
             t_dtype = Float32, t_device = CPU\<rparr> :: rat tensor"
  have "fst (get_screen still_env sample_kernel id only_cpu 0 CPU 2 2) = Inr ?t"
    by code_simp
  moreover have "nd_get frame2x2 [0, 1, 2] = Some 255"
    by code_simp
  moreover have "t_get ?t [0, 2, 1, 0] = Some 1"
    by code_simp
  moreover have "list_all (\<lambda>v. 0 \<le> v \<and> v \<le> 1) (t_storage ?t)"
    by simp
  moreover have "\<not> list_all (\<lambda>v. 0 \<le> v \<and> v \<le> 1) (nd_data frame2x2)"
    by simp
  ultimately show ?thesis by blast
qed

text \<open>
  C10. Every tensor that \<open>get_screen\<close> returns has the tensor library's default
  element type, 32-bit floating point, whatever the element type of the rendered array
  was (integer or floating).
\<close>

theorem result_dtype:
  assumes "fst (get_screen render interp to_f32 avail env device h w) = Inr t"
  shows "t_dtype t = Float32"
proof -
  from get_screen_rendered [OF assms] obtain k env' where
    k: "render env ''rgb_array'' = (Inr k, env')"
    by blast
  from get_screen_Inr [OF k assms] show ?thesis by auto
qed

theorem result_dtype_witness:
  "(\<exists>t. fst (get_screen still_env index_kernel id only_cpu 0 CPU 1 2) = Inr t
        \<and> t_dtype t = Float32)
   \<and> (\<exists>t. fst (get_screen (\<lambda>n mode. (Inr (frame2x2\<lparr>nd_dtype := Float64\<rparr>), n)) index_kernel id
               only_cpu (0::nat) CPU 1 2) = Inr t
        \<and> t_dtype t = Float32)"
proof (intro conjI)
  obtain t where t: "fst (get_screen still_env index_kernel id only_cpu 0 CPU 1 2) = Inr t"
    using get_screen_ok [of still_env 0 frame2x2 1 2 2 3 1 2 only_cpu CPU index_kernel id]
    by simp
  then show "\<exists>t. fst (get_screen still_env index_kernel id only_cpu 0 CPU 1 2) = Inr t
        \<and> t_dtype t = Float32"
    using result_dtype [of still_env index_kernel id only_cpu 0 CPU 1 2 t] by blast
next
  let ?env = "\<lambda>(n::nat) (mode::string). (Inr (frame2x2\<lparr>nd_dtype := Float64\<rparr>) :: error + rat ndarray, n)"
  obtain t where t: "fst (get_screen ?env index_kernel id only_cpu 0 CPU 1 2) = Inr t"
    using get_screen_ok [of ?env 0 "frame2x2\<lparr>nd_dtype := Float64\<rparr>" 0 2 2 3 1 2 only_cpu CPU
        index_kernel id]
    by simp
  then show "\<exists>t. fst (get_screen ?env index_kernel id only_cpu 0 CPU 1 2) = Inr t
        \<and> t_dtype t = Float32"
    using result_dtype [of ?env index_kernel id only_cpu 0 CPU 1 2 t] by blast
qed

text \<open>
  C7. Every tensor that \<open>get_screen\<close> returns resides on the device passed as
  \<open>device\<close>: it is the result of the final step, the transfer of a tensor (until then
  on the CPU) to that device, which succeeded because the device is available.
\<close>

theorem result_on_device:
  assumes "fst (get_screen render interp to_f32 avail env device h w) = Inr t"
  shows "t_device t = device \<and> avail device
         \<and> (\<exists>q. t_device q = CPU \<and> tensor_to avail q device = Inr t)"
proof -
  from get_screen_rendered [OF assms] obtain k env' where
    k: "render env ''rgb_array'' = (Inr k, env')"
    by blast
  from get_screen_Inr [OF k assms] obtain C where av: "avail device" and
    t: "t = \<lparr>t_sizes = [1, C, nat w, nat h],
          t_strides = [C, 1, max 1 C, max 1 (nat w) * max 1 C],
          t_storage = map to_f32 (map (interp False (img_as_float k) (nat h, nat w))
                                      (indices [nat h, nat w, C])),
          t_dtype = Float32, t_device = device\<rparr>"
    by blast
  have "t_device (t\<lparr>t_device := CPU\<rparr>) = CPU
        \<and> tensor_to avail (t\<lparr>t_device := CPU\<rparr>) device = Inr t"
    using av by (simp add: tensor_to_def t)
  then show ?thesis using av t by (intro conjI exI [of _ "t\<lparr>t_device := CPU\<rparr>"]) simp_all
qed

theorem result_on_device_witness:
  "\<exists>t. fst (get_screen still_env index_kernel id (\<lambda>d. True) 0 (CUDA 1) 1 2) = Inr t
      \<and> t_device t = CUDA 1"
proof -
  obtain t where t: "fst (get_screen still_env index_kernel id (\<lambda>d. True) 0 (CUDA 1) 1 2) = Inr t"
    using get_screen_ok [of still_env 0 frame2x2 1 2 2 3 1 2 "\<lambda>d. True" "CUDA 1" index_kernel id]
    by simp
  then show ?thesis
    using result_on_device [of still_env index_kernel id "\<lambda>d. True" 0 "CUDA 1" 1 2 t] by blast
qed

subsection \<open>Errors\<close>

text \<open>
  C9. \<open>get_screen\<close> catches, wraps and translates no error. It ends with the error
  \<open>e\<close> exactly when one of its steps raised \<open>e\<close> after all steps before it had
  succeeded: the render step, the resize step, the conversion and permutation steps
  (permute, unsqueeze) or the device placement. An error is the whole outcome: no tensor
  comes with it.
\<close>

theorem errors_propagate:
  "fst (get_screen render interp to_f32 avail env device h w) = Inl e \<longleftrightarrow>
     (\<exists>env'. render env ''rgb_array'' = (Inl e, env')) \<or>
     (\<exists>k env'. render env ''rgb_array'' = (Inr k, env') \<and>
        (resize interp k (h, w) False = Inl e \<or>
         (\<exists>r. resize interp k (h, w) False = Inr r \<and>
            (permute [2, 1, 0] (torch_Tensor to_f32 r) = Inl e \<or>
             (\<exists>p. permute [2, 1, 0] (torch_Tensor to_f32 r) = Inr p \<and>
                (unsqueeze 0 p = Inl e \<or>
                 (\<exists>q. unsqueeze 0 p = Inr q \<and> tensor_to avail q device = Inl e)))))))"
proof (cases "render env ''rgb_array''")
  case (Pair res env')
  show ?thesis
  proof (cases res)
    case (Inl x)
    with Pair show ?thesis by (auto simp: get_screen_def)
  next
    case (Inr k)
    with Pair show ?thesis
      by (simp add: get_screen_def ebind_def split: sum.splits)
  qed
qed

theorem errors_propagate_witness:
  "fst (get_screen (\<lambda>n mode. (Inl (RenderError ''closed''), n)) index_kernel id only_cpu
          (0::nat) CPU 1 2) = Inl (RenderError ''closed'')
   \<and> fst (get_screen still_env index_kernel id only_cpu 0 CPU (- 1) 2)
       = Inl (ResizeError ''negative target dimensions'')
   \<and> fst (get_screen (\<lambda>n mode. (Inr (frame2x2\<lparr>nd_shape := [4, 3]\<rparr>), n)) index_kernel id
            only_cpu (0::nat) CPU 1 2)
       = Inl (RuntimeError ''number of dims does not match in permute'')
   \<and> fst (get_screen still_env index_kernel id only_cpu 0 (CUDA 0) 1 2)
       = Inl (RuntimeError ''device unavailable'')"
proof (intro conjI)
  show "fst (get_screen (\<lambda>n mode. (Inl (RenderError ''closed''), n)) index_kernel id only_cpu
          (0::nat) CPU 1 2) = Inl (RenderError ''closed'')"
    using errors_propagate [of "\<lambda>n mode. (Inl (RenderError ''closed''), n)" index_kernel id
        only_cpu "0::nat" CPU 1 2 "RenderError ''closed''"]
    by simp
  show "fst (get_screen still_env index_kernel id only_cpu 0 CPU (- 1) 2)
       = Inl (ResizeError ''negative target dimensions'')"
    using errors_propagate [of still_env index_kernel id only_cpu 0 CPU "- 1" 2
        "ResizeError ''negative target dimensions''"]
    by (simp add: resize_def)
  let ?r2 = "\<lparr>nd_shape = [1, 2], nd_dtype = Float64, nd_data = [0, 1]\<rparr> :: rat ndarray"
  have r2: "resize index_kernel (frame2x2\<lparr>nd_shape := [4, 3]\<rparr>) (1, 2) False = Inr ?r2"
    by code_simp
  have p2: "permute [2, 1, 0] (torch_Tensor id ?r2)
      = Inl (RuntimeError ''number of dims does not match in permute'')"
    by code_simp
  show "fst (get_screen (\<lambda>n mode. (Inr (frame2x2\<lparr>nd_shape := [4, 3]\<rparr>), n)) index_kernel id
            only_cpu (0::nat) CPU 1 2)
       = Inl (RuntimeError ''number of dims does not match in permute'')"
    using r2 p2
    by (intro errors_propagate [of "\<lambda>n mode. (Inr (frame2x2\<lparr>nd_shape := [4, 3]\<rparr>), n)"
          index_kernel id only_cpu "0::nat" CPU 1 2
          "RuntimeError ''number of dims does not match in permute''", THEN iffD2]) blast
  let ?r3 = "\<lparr>nd_shape = [1, 2, 3], nd_dtype = Float64,
              nd_data = [0, 1, 2, 10, 11, 12]\<rparr> :: rat ndarray"
  let ?p3 = "\<lparr>t_sizes = [3, 2, 1], t_strides = [1, 3, 6],
              t_storage = [0, 1, 2, 10, 11, 12], t_dtype = Float32, t_device = CPU\<rparr>
             :: rat tensor"
  let ?q3 = "\<lparr>t_sizes = [1, 3, 2, 1], t_strides = [3, 1, 3, 6],
              t_storage = [0, 1, 2, 10, 11, 12], t_dtype = Float32, t_device = CPU\<rparr>
             :: rat tensor"
  have r3: "resize index_kernel frame2x2 (1, 2) False = Inr ?r3"
    by code_simp
  have p3: "permute [2, 1, 0] (torch_Tensor id ?r3) = Inr ?p3"
    by code_simp
  have q3: "unsqueeze 0 ?p3 = Inr ?q3"
    by code_simp
  have d3: "tensor_to only_cpu ?q3 (CUDA 0) = Inl (RuntimeError ''device unavailable'')"
    by (simp add: tensor_to_def)
  show "fst (get_screen still_env index_kernel id only_cpu 0 (CUDA 0) 1 2)
       = Inl (RuntimeError ''device unavailable'')"
    using r3 p3 q3 d3
    by (intro errors_propagate [of still_env index_kernel id only_cpu 0 "CUDA 0" 1 2
          "RuntimeError ''device unavailable''", THEN iffD2]) blast
qed

end
